theory Spec2Isabelle
  imports Main "HOL-Library.Word"
begin

section \<open>Values shared by the account functions\<close>

text \<open>
  \<open>common.Address\<close> is an array of eight bytes, compared with \<open>==\<close>; it is a 64-bit
  word here. \<open>AddressValue.ToAddress\<close> keeps the bytes, so \<open>AddressValue\<close> and
  \<open>Address\<close> are the same type. A Go pointer \<open>*AccountReferenceValue\<close> is an index into
  a heap of such structs (a list: allocation appends); an index outside the heap is the
  nil pointer.

  \<open>sema.Type\<close> is an interface whose implementations are not part of the sources at
  hand. The only things the code does with it are the type assertion
  \<open>ty.(*sema.ReferenceType)\<close> and calls of its methods, so it is a two-constructor
  datatype over an opaque payload \<open>'a\<close>; \<open>StaticType\<close> is the opaque type \<open>'s\<close>
  and the path domain the opaque type \<open>'d\<close>.
\<close>

type_synonym Address = "64 word"
type_synonym ptr = nat

datatype 'a SemaType = ReferenceType 'a | OtherSemaType 'a

record 'd PathValue =
  Domain :: 'd
  Identifier :: string

datatype ('s, 'd) Value =
    VPath "'d PathValue"
  | IDCapabilityValue "64 word" Address "'s option"
  | PathCapabilityValue Address "'d PathValue" "'s option"
  | AccountReferencePtr ptr
  | AddressValue Address
  | OtherValue nat

datatype ('a, 's, 'd, 'l) InterpreterError =
    UnreachableError
  | IndexOutOfRange
  | NilDereference
  | TypeMismatchError "'a SemaType" "'a SemaType" 'l

section \<open>AccountReferenceValue (runtime/interpreter/value\_accountreference.go)\<close>

record ('a, 's, 'd) AccountReferenceValue =
  BorrowedType :: "'a SemaType option"
  authAccount :: "('s, 'd) Value option"
  Address :: Address

type_synonym ('a, 's, 'd) heap = "('a, 's, 'd) AccountReferenceValue list"

definition deref :: "('a, 's, 'd) heap \<Rightarrow> ptr \<Rightarrow> ('a, 's, 'd) AccountReferenceValue option" where
  "deref h p = (if p < length h then Some (h ! p) else None)"

text \<open>\<open>NewUnmeteredAccountReferenceValue\<close>: a fresh struct with the cached account unset.\<close>

definition NewUnmeteredAccountReferenceValue ::
  "('a, 's, 'd) heap \<Rightarrow> Address \<Rightarrow> 'a SemaType option \<Rightarrow> ptr \<times> ('a, 's, 'd) heap" where
  "NewUnmeteredAccountReferenceValue h address borrowedType =
     (length h, h @ [\<lparr>BorrowedType = borrowedType, authAccount = None, Address = address\<rparr>])"

text \<open>
  \<open>Equal\<close>: the other value must be an account reference with the same address; a nil
  borrowed type only equals a nil one, otherwise the decision is \<open>sema.Type.Equal\<close>,
  the parameter \<open>tyEqual\<close> (its second argument may be the nil interface).
\<close>

definition Equal ::
  "('a SemaType \<Rightarrow> 'a SemaType option \<Rightarrow> bool) \<Rightarrow> ('a, 's, 'd) heap \<Rightarrow> ptr \<Rightarrow> ('s, 'd) Value
     \<Rightarrow> ('a, 's, 'd, 'l) InterpreterError + bool" where
  "Equal tyEqual h v other =
     (case other of
        AccountReferencePtr q \<Rightarrow>
          (case deref h v of
             None \<Rightarrow> Inl NilDereference
           | Some vr \<Rightarrow>
              (case deref h q of
                 None \<Rightarrow> Inl NilDereference
               | Some otherReference \<Rightarrow>
                   if Address vr \<noteq> Address otherReference then Inr False
                   else (case BorrowedType vr of
                           None \<Rightarrow> Inr (BorrowedType otherReference = None)
                         | Some t \<Rightarrow> Inr (tyEqual t (BorrowedType otherReference)))))
      | _ \<Rightarrow> Inr False)"

definition IsStorable :: "ptr \<Rightarrow> bool" where
  "IsStorable v = False"

datatype ('s, 'd) Storable = NonStorable "('s, 'd) Value" | StorageIDStorable nat

definition Storable :: "ptr \<Rightarrow> ('s, 'd) Storable \<times> unit option" where
  "Storable v = (NonStorable (AccountReferencePtr v), None)"

definition NeedsStoreTo :: "ptr \<Rightarrow> bool" where
  "NeedsStoreTo v = False"

definition IsResourceKinded :: "ptr \<Rightarrow> bool" where
  "IsResourceKinded v = False"

text \<open>
  \<open>Transfer\<close>: with \<open>remove\<close> set, the interpreter removes the slab the storable
  refers to (\<open>Interpreter.RemoveReferencedSlab\<close>, a parameter acting on the interpreter's
  storage \<open>'st\<close>); the result is the receiver itself. The heap of references is not
  touched.
\<close>

definition Transfer ::
  "('st \<Rightarrow> ('s, 'd) Storable \<Rightarrow> 'st) \<Rightarrow> 'st \<Rightarrow> ptr \<Rightarrow> bool \<Rightarrow> ('s, 'd) Storable \<Rightarrow> ('s, 'd) Value \<times> 'st" where
  "Transfer RemoveReferencedSlab st v remove storable =
     (let st' = (if remove then RemoveReferencedSlab st storable else st)
      in (AccountReferencePtr v, st'))"

definition Clone :: "('a, 's, 'd) heap \<Rightarrow> ptr \<Rightarrow> ('a, 's, 'd, 'l) InterpreterError + (ptr \<times> ('a, 's, 'd) heap)" where
  "Clone h v =
     (case deref h v of
        None \<Rightarrow> Inl NilDereference
      | Some vr \<Rightarrow> Inr (NewUnmeteredAccountReferenceValue h (Address vr) (BorrowedType vr)))"

definition DeepRemove :: "'st \<Rightarrow> ('a, 's, 'd) heap \<Rightarrow> ptr \<Rightarrow> 'st \<times> ('a, 's, 'd) heap" where
  "DeepRemove st h v = (st, h)"

text \<open>
  An example: a heap holding one reference to account 1 with a borrowed type, structural
  equality for \<open>sema.Type.Equal\<close>, and a slab store that is a list of ids.
\<close>

definition heap1 :: "(nat, nat, nat) heap" where
  "heap1 = [\<lparr>BorrowedType = Some (ReferenceType 7), authAccount = None, Address = 1\<rparr>]"

definition structEqual :: "nat SemaType \<Rightarrow> nat SemaType option \<Rightarrow> bool" where
  "structEqual t u = (u = Some t)"

definition removeSlab :: "nat list \<Rightarrow> (nat, nat) Storable \<Rightarrow> nat list" where
  "removeSlab st s = (case s of StorageIDStorable i \<Rightarrow> removeAll i st | _ \<Rightarrow> st)"


section \<open>Account.getCapability (runtime/interpreter/value\_account.go)\<close>

text \<open>
  The methods of \<open>*Interpreter\<close> and of the value and type packages that
  \<open>accountGetCapabilityFunction\<close> calls are not among the sources at hand; they are the
  fields of this record, with the types of their Go signatures.
  \<open>PathStaticType\<close> is \<open>PathValue.StaticType\<close>, \<open>DomainIdentifier\<close> is
  \<open>PathDomain.Identifier\<close>; \<open>ReadStored\<close> returns \<open>None\<close> for Go's nil value.
\<close>

record ('a, 's, 'd) Interpreter =
  IsSubTypeOfSemaType :: "'s \<Rightarrow> 'a SemaType \<Rightarrow> bool"
  MustConvertStaticToSemaType :: "'s \<Rightarrow> 'a SemaType"
  ConvertSemaToStaticType :: "'a SemaType \<Rightarrow> 's"
  PathStaticType :: "'d PathValue \<Rightarrow> 's"
  DomainIdentifier :: "'d \<Rightarrow> string"
  ReadStored :: "Address \<Rightarrow> string \<Rightarrow> string \<Rightarrow> ('s, 'd) Value option"

text \<open>
  An invocation: the arguments, the type arguments (an insertion-ordered map from type
  parameter to type, here the list of its pairs, whose \<open>Oldest\<close> is the first pair or
  nil) and the location range.
\<close>

record ('a, 's, 'd, 'l) Invocation =
  Arguments :: "('s, 'd) Value list"
  TypeParameterTypes :: "(string \<times> 'a SemaType) list"
  LocationRange :: 'l

definition Oldest :: "('k \<times> 'v) list \<Rightarrow> ('k \<times> 'v) option" where
  "Oldest om = (case om of [] \<Rightarrow> None | p # _ \<Rightarrow> Some p)"

text \<open>
  The borrow type the caller asks for: the first type argument, when there is one and it
  is a \<open>*sema.ReferenceType\<close>, converted to a static type; nil otherwise
  (the type parameter is optional).
\<close>

definition borrowStaticTypeOf ::
  "('a, 's, 'd) Interpreter \<Rightarrow> ('a, 's, 'd, 'l) Invocation \<Rightarrow> 's option" where
  "borrowStaticTypeOf interpreter invocation =
     (let borrowType =
            (case Oldest (TypeParameterTypes invocation) of
               None \<Rightarrow> None
             | Some typeParameterPair \<Rightarrow>
                 (case snd typeParameterPair of
                    ReferenceType a \<Rightarrow> Some (ReferenceType a)
                  | OtherSemaType a \<Rightarrow> None))
      in (case borrowType of
            None \<Rightarrow> None
          | Some t \<Rightarrow> Some (ConvertSemaToStaticType interpreter t)))"

text \<open>
  The body of the host function that \<open>accountGetCapabilityFunction\<close> returns. Reading
  \<open>Arguments[0]\<close> of an empty argument list is Go's index panic; an argument that is
  not a path is the unreachable error.
\<close>

definition accountGetCapabilityFunction ::
  "('a, 's, 'd) Interpreter \<Rightarrow> Address \<Rightarrow> 'a SemaType \<Rightarrow> ('a, 's, 'd, 'l) Invocation
     \<Rightarrow> ('a, 's, 'd, 'l) InterpreterError + ('s, 'd) Value" where
  "accountGetCapabilityFunction interpreter addressValue pathType invocation =
     (case Arguments invocation of
        [] \<Rightarrow> Inl IndexOutOfRange
      | arg # _ \<Rightarrow>
         (case arg of
            VPath path \<Rightarrow>
              (let pathStaticType = PathStaticType interpreter path in
               if \<not> IsSubTypeOfSemaType interpreter pathStaticType pathType then
                 Inl (TypeMismatchError pathType
                        (MustConvertStaticToSemaType interpreter pathStaticType)
                        (LocationRange invocation))
               else
                 (let borrowStaticType = borrowStaticTypeOf interpreter invocation;
                      domain = DomainIdentifier interpreter (Domain path);
                      identifier = Identifier path;
                      readValue = ReadStored interpreter addressValue domain identifier
                  in (case readValue of
                        Some (IDCapabilityValue capabilityID _ _) \<Rightarrow>
                          Inr (IDCapabilityValue capabilityID addressValue borrowStaticType)
                      | _ \<Rightarrow> Inr (PathCapabilityValue addressValue path borrowStaticType))))
          | _ \<Rightarrow> Inl UnreachableError))"

text \<open>
  An example interpreter: static types and type payloads are numbers, the path types are
  the static types below 3, and account 1 stores an ID capability with id 11 and borrow
  type 5 at \<open>/public/cap\<close>.
\<close>

definition interp1 :: "(nat, nat, nat) Interpreter" where
  "interp1 = \<lparr>
     IsSubTypeOfSemaType = (\<lambda>s t. t = OtherSemaType s),
     MustConvertStaticToSemaType = OtherSemaType,
     ConvertSemaToStaticType = (\<lambda>t. case t of ReferenceType a \<Rightarrow> a | OtherSemaType a \<Rightarrow> a),
     PathStaticType = Domain,
     DomainIdentifier = (\<lambda>d. if d = 0 then ''storage'' else if d = 1 then ''private'' else ''public''),
     ReadStored = (\<lambda>a d i. if a = 1 \<and> d = ''public'' \<and> i = ''cap''
                             then Some (IDCapabilityValue 11 1 (Some 5)) else None)\<rparr>"

definition inv1 :: "string \<Rightarrow> (nat, nat, nat, unit) Invocation" where
  "inv1 i = \<lparr>Arguments = [VPath \<lparr>Domain = 2, Identifier = i\<rparr>],
             TypeParameterTypes = [(''T'', ReferenceType 9)],
             LocationRange = ()\<rparr>"

section \<open>The program cache of the runtime interface (testRuntimeInterface)\<close>

text \<open>
  The fields of \<open>testRuntimeInterface\<close> that the program cache uses. \<open>programs\<close> maps
  a location to a \<open>*interpreter.Program\<close>: a pointer \<open>Some p\<close> or nil, so an entry
  is \<open>Some (Some p)\<close> or \<open>Some None\<close>. A nil Go map reads as the empty map, and
  \<open>GetOrLoadProgram\<close> replaces a nil map by an empty one before its only write, so the
  map is a plain partial function. \<open>accountCodes\<close> is the state the hook
  \<open>updateAccountContractCode\<close> closes over.
\<close>

record ('loc, 'prog, 'codes) testRuntimeInterface =
  programs :: "'loc \<rightharpoonup> 'prog option"
  updatedContractCode :: bool
  accountCodes :: 'codes

text \<open>
  \<open>load func() (*interpreter.Program, error)\<close> is a closure: it may call back into the
  interface, so it takes the interface and returns it with its results.
\<close>

type_synonym ('loc, 'prog, 'codes, 'err) load =
  "('loc, 'prog, 'codes) testRuntimeInterface
     \<Rightarrow> ('prog option \<times> 'err option) \<times> ('loc, 'prog, 'codes) testRuntimeInterface"

text \<open>
  \<open>GetOrLoadProgram\<close>. Without the hook \<open>getAndSetProgram\<close>: a hit returns the entry
  and a nil error; a miss runs the loader and stores the program it returns, also when the
  loader failed.
\<close>

definition GetOrLoadProgram ::
  "('loc \<Rightarrow> ('loc, 'prog, 'codes, 'err) load \<Rightarrow> ('loc, 'prog, 'codes, 'err) load) option
   \<Rightarrow> 'loc \<Rightarrow> ('loc, 'prog, 'codes, 'err) load \<Rightarrow> ('loc, 'prog, 'codes, 'err) load" where
  "GetOrLoadProgram getAndSetProgram location load i =
     (case getAndSetProgram of
        None \<Rightarrow>
          (case programs i location of
             Some program \<Rightarrow> ((program, None), i)
           | None \<Rightarrow>
               (case load i of
                  ((program, err), i') \<Rightarrow>
                    ((program, err), i'\<lparr>programs := (programs i')(location \<mapsto> program)\<rparr>)))
      | Some hook \<Rightarrow> hook location load i)"

text \<open>
  \<open>UpdateAccountContractCode\<close> panics without its hook; it returns the hook's error, or
  sets \<open>updatedContractCode\<close>. It never writes \<open>programs\<close>.
\<close>

datatype 'err panic = MustSpecify string

definition UpdateAccountContractCode ::
  "('aloc \<Rightarrow> 'code \<Rightarrow> 'codes \<Rightarrow> 'err option \<times> 'codes) option
   \<Rightarrow> 'aloc \<Rightarrow> 'code \<Rightarrow> ('loc, 'prog, 'codes) testRuntimeInterface
   \<Rightarrow> 'err panic + ('err option \<times> ('loc, 'prog, 'codes) testRuntimeInterface)" where
  "UpdateAccountContractCode updateAccountContractCode location code i =
     (case updateAccountContractCode of
        None \<Rightarrow> Inl (MustSpecify ''must specify testRuntimeInterface.updateAccountContractCode'')
      | Some hook \<Rightarrow>
          (case hook location code (accountCodes i) of
             (Some err, codes') \<Rightarrow> Inr (Some err, i\<lparr>accountCodes := codes'\<rparr>)
           | (None, codes') \<Rightarrow> Inr (None, i\<lparr>accountCodes := codes', updatedContractCode := True\<rparr>)))"

text \<open>
  \<open>invalidateUpdatedPrograms\<close> runs at the start of every transaction and script
  (\<open>testInterpreterRuntime.ExecuteTransaction\<close>, \<open>ExecuteScript\<close>): it deletes every
  cached program when a contract was updated since.
\<close>

definition invalidateUpdatedPrograms ::
  "('loc, 'prog, 'codes) testRuntimeInterface \<Rightarrow> ('loc, 'prog, 'codes) testRuntimeInterface" where
  "invalidateUpdatedPrograms i =
     (if updatedContractCode i
      then i\<lparr>programs := Map.empty, updatedContractCode := False\<rparr>
      else i)"

definition onTransactionExecutionStart ::
  "('loc, 'prog, 'codes) testRuntimeInterface \<Rightarrow> ('loc, 'prog, 'codes) testRuntimeInterface" where
  "onTransactionExecutionStart i = invalidateUpdatedPrograms i"

definition onScriptExecutionStart ::
  "('loc, 'prog, 'codes) testRuntimeInterface \<Rightarrow> ('loc, 'prog, 'codes) testRuntimeInterface" where
  "onScriptExecutionStart i = invalidateUpdatedPrograms i"

text \<open>
  What one execution does to the interface between two uses of a location: calls of
  \<open>GetOrLoadProgram\<close> and of \<open>UpdateAccountContractCode\<close>, in any order. A loader
  keeps the cache when it leaves every entry that is cached as it is; one that only
  reaches the cache through \<open>GetOrLoadProgram\<close> does.
\<close>

datatype ('loc, 'prog, 'codes, 'err, 'aloc, 'code) call =
    CallGetOrLoadProgram 'loc "('loc, 'prog, 'codes, 'err) load"
  | CallUpdateAccountContractCode 'aloc 'code

definition keepsCached :: "('loc, 'prog, 'codes, 'err) load \<Rightarrow> bool" where
  "keepsCached load = (\<forall>i l p. programs i l = Some p \<longrightarrow> programs (snd (load i)) l = Some p)"

fun callKeepsCached :: "('loc, 'prog, 'codes, 'err, 'aloc, 'code) call \<Rightarrow> bool" where
  "callKeepsCached (CallGetOrLoadProgram l load) = keepsCached load"
| "callKeepsCached (CallUpdateAccountContractCode l c) = True"

fun execute ::
  "('aloc \<Rightarrow> 'code \<Rightarrow> 'codes \<Rightarrow> 'err option \<times> 'codes) option
   \<Rightarrow> ('loc, 'prog, 'codes, 'err, 'aloc, 'code) call list
   \<Rightarrow> ('loc, 'prog, 'codes) testRuntimeInterface
   \<Rightarrow> 'err panic + ('loc, 'prog, 'codes) testRuntimeInterface" where
  "execute u [] i = Inr i"
| "execute u (CallGetOrLoadProgram l load # cs) i = execute u cs (snd (GetOrLoadProgram None l load i))"
| "execute u (CallUpdateAccountContractCode l c # cs) i =
     (case UpdateAccountContractCode u l c i of
        Inl p \<Rightarrow> Inl p
      | Inr (_, i') \<Rightarrow> execute u cs i')"

text \<open>
  An example: locations and programs are numbers, the account codes a map; a loader that
  returns a fixed program, one that first imports another location, and an update hook
  that stores the code.
\<close>

definition emptyInterface :: "(nat, nat, nat \<rightharpoonup> string) testRuntimeInterface" where
  "emptyInterface = \<lparr>programs = Map.empty, updatedContractCode = False, accountCodes = Map.empty\<rparr>"

definition loadConst :: "nat \<Rightarrow> (nat, nat, nat \<rightharpoonup> string, string) load" where
  "loadConst p i = ((Some p, None), i)"

definition loadImporting :: "nat \<Rightarrow> nat \<Rightarrow> (nat, nat, nat \<rightharpoonup> string, string) load" where
  "loadImporting l p i = ((Some p, None), snd (GetOrLoadProgram None l (loadConst (p + 1)) i))"

definition storeCode :: "nat \<Rightarrow> string \<Rightarrow> (nat \<rightharpoonup> string) \<Rightarrow> string option \<times> (nat \<rightharpoonup> string)" where
  "storeCode l c codes = (None, codes(l \<mapsto> c))"

definition calls1 :: "(nat, nat, nat \<rightharpoonup> string, string, nat, string) call list" where
  "calls1 = [CallUpdateAccountContractCode 1 ''v2'', CallGetOrLoadProgram 2 (loadImporting 1 200)]"

section \<open>Theorems\<close>

lemma deref_append_old: "p < length h \<Longrightarrow> deref (h @ xs) p = deref h p"
  by (simp add: deref_def nth_append)

lemma deref_append_new: "deref (h @ [x]) (length h) = Some x"
  by (simp add: deref_def)

lemma Clone_result:
  assumes "deref h v = Some vr"
  shows "Clone h v = Inr (length h, h @ [\<lparr>BorrowedType = BorrowedType vr, authAccount = None, Address = Address vr\<rparr>])"
  using assms by (simp add: Clone_def NewUnmeteredAccountReferenceValue_def)

lemma deref_Some_lt: "deref h v = Some vr \<Longrightarrow> v < length h"
  by (simp add: deref_def split: if_splits)

text \<open>
  Claim C10. An account reference is never persistable and is inert under the transfer
  protocol: \<open>IsStorable\<close> is false, \<open>Storable\<close> wraps the reference as \<open>NonStorable\<close>
  without error, \<open>IsResourceKinded\<close> is false, \<open>Transfer\<close> returns the very same
  pointer, \<open>DeepRemove\<close> changes nothing, and \<open>Clone\<close> of a live reference allocates a
  new struct, leaves the old ones as they were, copies the address and the borrowed type,
  and the clone is \<open>Equal\<close> to the original in both directions as soon as
  \<open>sema.Type.Equal\<close> holds of a type and itself.
\<close>

theorem AccountReferenceValue_inert:
  fixes h :: "('a, 's, 'd) heap" and tyEqual :: "'a SemaType \<Rightarrow> 'a SemaType option \<Rightarrow> bool"
    and rrs :: "'st \<Rightarrow> ('s, 'd) Storable \<Rightarrow> 'st"
  assumes live: "deref h v = Some vr"
    and refl: "\<And>t. tyEqual t (Some t)"
  shows "\<not> IsStorable v
       \<and> (Storable v :: ('s, 'd) Storable \<times> unit option) = (NonStorable (AccountReferencePtr v), None)
       \<and> \<not> IsResourceKinded v
       \<and> fst (Transfer rrs st v remove storable) = AccountReferencePtr v
       \<and> snd (Transfer rrs st v False storable) = st
       \<and> DeepRemove st h v = (st, h)
       \<and> (\<exists>c h'. (Clone h v :: ('a, 's, 'd, 'l) InterpreterError + (ptr \<times> ('a, 's, 'd) heap)) = Inr (c, h')
           \<and> c \<noteq> v \<and> deref h c = None
           \<and> (\<forall>p. p < length h \<longrightarrow> deref h' p = deref h p)
           \<and> map_option Address (deref h' c) = Some (Address vr)
           \<and> map_option BorrowedType (deref h' c) = Some (BorrowedType vr)
           \<and> (Equal tyEqual h' c (AccountReferencePtr v) :: ('a, 's, 'd, 'l) InterpreterError + bool) = Inr True
           \<and> (Equal tyEqual h' v (AccountReferencePtr c) :: ('a, 's, 'd, 'l) InterpreterError + bool) = Inr True)"
proof -
  have a1: "\<not> IsStorable v" by (simp add: IsStorable_def)
  have a2: "(Storable v :: ('s, 'd) Storable \<times> unit option) = (NonStorable (AccountReferencePtr v), None)"
    by (simp add: Storable_def)
  have a3: "\<not> IsResourceKinded v" by (simp add: IsResourceKinded_def)
  have a4: "fst (Transfer rrs st v remove storable) = AccountReferencePtr v"
    by (simp add: Transfer_def Let_def)
  have a5: "snd (Transfer rrs st v False storable) = st"
    by (simp add: Transfer_def)
  have a6: "DeepRemove st h v = (st, h)" by (simp add: DeepRemove_def)
  let ?n = "\<lparr>BorrowedType = BorrowedType vr, authAccount = None, Address = Address vr\<rparr>"
  let ?h' = "h @ [?n]"
  have lt: "v < length h" using live by (rule deref_Some_lt)
  have cl: "(Clone h v :: ('a, 's, 'd, 'l) InterpreterError + (ptr \<times> ('a, 's, 'd) heap)) = Inr (length h, ?h')"
    using live by (rule Clone_result)
  have dv: "deref ?h' v = Some vr" using lt live by (simp add: deref_append_old)
  have dc: "deref ?h' (length h) = Some ?n" by (rule deref_append_new)
  have e1: "(Equal tyEqual ?h' (length h) (AccountReferencePtr v) :: ('a, 's, 'd, 'l) InterpreterError + bool) = Inr True"
    using dv dc refl by (cases "BorrowedType vr") (simp_all add: Equal_def)
  have e2: "(Equal tyEqual ?h' v (AccountReferencePtr (length h)) :: ('a, 's, 'd, 'l) InterpreterError + bool) = Inr True"
    using dv dc refl by (cases "BorrowedType vr") (simp_all add: Equal_def)
  have old: "\<forall>p. p < length h \<longrightarrow> deref ?h' p = deref h p" by (simp add: deref_append_old)
  have fresh: "deref h (length h) = None" by (simp add: deref_def)
  have a7: "\<exists>c h'. (Clone h v :: ('a, 's, 'd, 'l) InterpreterError + (ptr \<times> ('a, 's, 'd) heap)) = Inr (c, h')
           \<and> c \<noteq> v \<and> deref h c = None
           \<and> (\<forall>p. p < length h \<longrightarrow> deref h' p = deref h p)
           \<and> map_option Address (deref h' c) = Some (Address vr)
           \<and> map_option BorrowedType (deref h' c) = Some (BorrowedType vr)
           \<and> (Equal tyEqual h' c (AccountReferencePtr v) :: ('a, 's, 'd, 'l) InterpreterError + bool) = Inr True
           \<and> (Equal tyEqual h' v (AccountReferencePtr c) :: ('a, 's, 'd, 'l) InterpreterError + bool) = Inr True"
    using cl lt dc e1 e2 old fresh by (intro exI[of _ "length h"] exI[of _ ?h']) simp
  from a1 a2 a3 a4 a5 a6 a7 show ?thesis by blast
qed

theorem AccountReferenceValue_inert_witness:
  "deref heap1 0 = Some \<lparr>BorrowedType = Some (ReferenceType 7), authAccount = None, Address = 1\<rparr>
   \<and> structEqual (ReferenceType 7) (Some (ReferenceType 7))
   \<and> fst (Transfer removeSlab [3, 4] 0 True (StorageIDStorable 3)) = AccountReferencePtr 0
   \<and> (\<exists>c h'. (Clone heap1 0 :: (nat, nat, nat, unit) InterpreterError + (ptr \<times> (nat, nat, nat) heap)) = Inr (c, h')
         \<and> c \<noteq> 0
         \<and> (Equal structEqual h' c (AccountReferencePtr 0) :: (nat, nat, nat, unit) InterpreterError + bool) = Inr True)"
proof -
  have d: "deref heap1 0 = Some \<lparr>BorrowedType = Some (ReferenceType 7), authAccount = None, Address = 1\<rparr>"
    by (simp add: heap1_def deref_def)
  have r: "\<And>t. structEqual t (Some t)" by (simp add: structEqual_def)
  from AccountReferenceValue_inert [where tyEqual = structEqual and rrs = removeSlab
      and st = "[3, 4]" and remove = True and storable = "StorageIDStorable 3"
      and 'l = unit, OF d r]
  show ?thesis using d r by blast
qed


subsection \<open>getCapability\<close>

lemma getCapability_mismatch:
  assumes "Arguments invocation = VPath path # rest"
    and "\<not> IsSubTypeOfSemaType interpreter (PathStaticType interpreter path) pathType"
  shows "accountGetCapabilityFunction interpreter addressValue pathType invocation
         = Inl (TypeMismatchError pathType
                  (MustConvertStaticToSemaType interpreter (PathStaticType interpreter path))
                  (LocationRange invocation))"
  using assms by (simp add: accountGetCapabilityFunction_def)

lemma getCapability_id:
  assumes "Arguments invocation = VPath path # rest"
    and "IsSubTypeOfSemaType interpreter (PathStaticType interpreter path) pathType"
    and "ReadStored interpreter addressValue (DomainIdentifier interpreter (Domain path)) (Identifier path)
         = Some (IDCapabilityValue capabilityID a bt)"
  shows "accountGetCapabilityFunction interpreter addressValue pathType invocation
         = Inr (IDCapabilityValue capabilityID addressValue (borrowStaticTypeOf interpreter invocation))"
  using assms by (simp add: accountGetCapabilityFunction_def)

lemma getCapability_path:
  fixes interpreter :: "('a, 's, 'd) Interpreter" and invocation :: "('a, 's, 'd, 'l) Invocation"
  assumes "Arguments invocation = VPath path # rest"
    and "IsSubTypeOfSemaType interpreter (PathStaticType interpreter path) pathType"
    and "\<And>capabilityID a bt.
           ReadStored interpreter addressValue (DomainIdentifier interpreter (Domain path)) (Identifier path)
           \<noteq> Some (IDCapabilityValue capabilityID a bt)"
  shows "accountGetCapabilityFunction interpreter addressValue pathType invocation
         = Inr (PathCapabilityValue addressValue path (borrowStaticTypeOf interpreter invocation))"
proof -
  let ?r = "ReadStored interpreter addressValue (DomainIdentifier interpreter (Domain path)) (Identifier path)"
  have "(case ?r of
           Some (IDCapabilityValue capabilityID _ _) \<Rightarrow>
             Inr (IDCapabilityValue capabilityID addressValue (borrowStaticTypeOf interpreter invocation))
         | _ \<Rightarrow> Inr (PathCapabilityValue addressValue path (borrowStaticTypeOf interpreter invocation)))
        = (Inr (PathCapabilityValue addressValue path (borrowStaticTypeOf interpreter invocation))
            :: ('a, 's, 'd, 'l) InterpreterError + ('s, 'd) Value)"
    using assms(3) by (cases ?r) (auto split: Value.splits)
  then show ?thesis
    using assms(1,2) by (simp add: accountGetCapabilityFunction_def)
qed

text \<open>
  Claim C9. For an invocation of \<open>getCapability\<close> whose first argument is a path: when
  the path's static type is not a subtype of the required path type the call fails with a
  type-mismatch error (expected: the required type, actual: the path's type). Otherwise it
  returns a capability, whatever is stored: when the value stored at the account's
  (domain, identifier) is an ID capability, an ID capability with the stored id, the
  account's address and the borrow type the caller asked for, whatever borrow type and
  address the stored one carries; in every other case, nothing stored included, a path
  capability for the account, the path and the borrow type asked for. The borrow type
  asked for is the first type argument converted to a static type when it is a reference
  type, and nil when there is no type argument or it is not a reference type.
\<close>

theorem accountGetCapabilityFunction_result:
  fixes interpreter :: "('a, 's, 'd) Interpreter" and invocation :: "('a, 's, 'd, 'l) Invocation"
  assumes args: "Arguments invocation = VPath path # rest"
  shows "(\<not> IsSubTypeOfSemaType interpreter (PathStaticType interpreter path) pathType \<longrightarrow>
            accountGetCapabilityFunction interpreter addressValue pathType invocation
            = Inl (TypeMismatchError pathType
                     (MustConvertStaticToSemaType interpreter (PathStaticType interpreter path))
                     (LocationRange invocation)))
       \<and> (IsSubTypeOfSemaType interpreter (PathStaticType interpreter path) pathType \<longrightarrow>
            (\<forall>capabilityID a bt.
               ReadStored interpreter addressValue (DomainIdentifier interpreter (Domain path)) (Identifier path)
                 = Some (IDCapabilityValue capabilityID a bt) \<longrightarrow>
               accountGetCapabilityFunction interpreter addressValue pathType invocation
                 = Inr (IDCapabilityValue capabilityID addressValue (borrowStaticTypeOf interpreter invocation)))
          \<and> ((\<forall>capabilityID a bt.
               ReadStored interpreter addressValue (DomainIdentifier interpreter (Domain path)) (Identifier path)
                 \<noteq> Some (IDCapabilityValue capabilityID a bt)) \<longrightarrow>
               accountGetCapabilityFunction interpreter addressValue pathType invocation
                 = Inr (PathCapabilityValue addressValue path (borrowStaticTypeOf interpreter invocation))))
       \<and> (TypeParameterTypes invocation = [] \<longrightarrow> borrowStaticTypeOf interpreter invocation = None)
       \<and> (\<forall>n a more. TypeParameterTypes invocation = (n, ReferenceType a) # more \<longrightarrow>
             borrowStaticTypeOf interpreter invocation
             = Some (ConvertSemaToStaticType interpreter (ReferenceType a)))
       \<and> (\<forall>n a more. TypeParameterTypes invocation = (n, OtherSemaType a) # more \<longrightarrow>
             borrowStaticTypeOf interpreter invocation = None)"
proof -
  have b1: "TypeParameterTypes invocation = [] \<longrightarrow> borrowStaticTypeOf interpreter invocation = None"
    by (simp add: borrowStaticTypeOf_def Oldest_def)
  have b2: "\<forall>n a more. TypeParameterTypes invocation = (n, ReferenceType a) # more \<longrightarrow>
             borrowStaticTypeOf interpreter invocation
             = Some (ConvertSemaToStaticType interpreter (ReferenceType a))"
    by (simp add: borrowStaticTypeOf_def Oldest_def)
  have b3: "\<forall>n a more. TypeParameterTypes invocation = (n, OtherSemaType a) # more \<longrightarrow>
             borrowStaticTypeOf interpreter invocation = None"
    by (simp add: borrowStaticTypeOf_def Oldest_def)
  show ?thesis
    using getCapability_mismatch [OF args] getCapability_id [OF args] getCapability_path [OF args]
      b1 b2 b3
    by blast
qed

text \<open>
  At the example interpreter: the stored ID capability has borrow type 5, the caller asks
  for the reference type 9 and gets an ID capability with 9; at an empty path the caller
  gets a path capability; a storage path where a public path is required is a mismatch.
\<close>

theorem accountGetCapabilityFunction_result_witness:
  "accountGetCapabilityFunction interp1 1 (OtherSemaType 2) (inv1 ''cap'')
     = Inr (IDCapabilityValue 11 1 (Some 9))
   \<and> accountGetCapabilityFunction interp1 1 (OtherSemaType 2) (inv1 ''none'')
     = Inr (PathCapabilityValue 1 \<lparr>Domain = 2, Identifier = ''none''\<rparr> (Some 9))
   \<and> accountGetCapabilityFunction interp1 1 (OtherSemaType 0) (inv1 ''cap'')
     = Inl (TypeMismatchError (OtherSemaType 0) (OtherSemaType 2) ())"
proof -
  have a: "\<And>i. Arguments (inv1 i) = VPath \<lparr>Domain = 2, Identifier = i\<rparr> # []"
    by (simp add: inv1_def)
  have b: "borrowStaticTypeOf interp1 (inv1 i) = Some 9" for i
    by (simp add: borrowStaticTypeOf_def interp1_def inv1_def Oldest_def)
  have sub: "IsSubTypeOfSemaType interp1 (PathStaticType interp1 \<lparr>Domain = 2, Identifier = i\<rparr>) (OtherSemaType 2)" for i
    by (simp add: interp1_def)
  have nsub: "\<not> IsSubTypeOfSemaType interp1 (PathStaticType interp1 \<lparr>Domain = 2, Identifier = i\<rparr>) (OtherSemaType 0)" for i
    by (simp add: interp1_def)
  have r1: "ReadStored interp1 1 (DomainIdentifier interp1 (Domain \<lparr>Domain = 2, Identifier = ''cap''\<rparr>))
              (Identifier \<lparr>Domain = 2, Identifier = ''cap''\<rparr>) = Some (IDCapabilityValue 11 1 (Some 5))"
    by (simp add: interp1_def)
  have r2: "\<forall>capabilityID a bt. ReadStored interp1 1 (DomainIdentifier interp1 (Domain \<lparr>Domain = 2, Identifier = ''none''\<rparr>))
              (Identifier \<lparr>Domain = 2, Identifier = ''none''\<rparr>) \<noteq> Some (IDCapabilityValue capabilityID a bt)"
    by (simp add: interp1_def)
  have m: "MustConvertStaticToSemaType interp1 (PathStaticType interp1 \<lparr>Domain = 2, Identifier = ''cap''\<rparr>) = OtherSemaType 2"
    by (simp add: interp1_def)
  have l: "LocationRange (inv1 i) = ()" for i by simp
  from accountGetCapabilityFunction_result [OF a, of interp1 "''cap''" "OtherSemaType 2" 1] sub r1 b
  have c1: "accountGetCapabilityFunction interp1 1 (OtherSemaType 2) (inv1 ''cap'')
     = Inr (IDCapabilityValue 11 1 (Some 9))" by metis
  from accountGetCapabilityFunction_result [OF a, of interp1 "''none''" "OtherSemaType 2" 1] sub r2 b
  have c2: "accountGetCapabilityFunction interp1 1 (OtherSemaType 2) (inv1 ''none'')
     = Inr (PathCapabilityValue 1 \<lparr>Domain = 2, Identifier = ''none''\<rparr> (Some 9))" by metis
  from accountGetCapabilityFunction_result [OF a, of interp1 "''cap''" "OtherSemaType 0" 1] nsub m
  have c3: "accountGetCapabilityFunction interp1 1 (OtherSemaType 0) (inv1 ''cap'')
     = Inl (TypeMismatchError (OtherSemaType 0) (OtherSemaType 2) ())" by simp
  from c1 c2 c3 show ?thesis by blast
qed


subsection \<open>The program cache\<close>

lemma GetOrLoadProgram_hit:
  "programs i location = Some p \<Longrightarrow> GetOrLoadProgram None location load i = ((p, None), i)"
  by (simp add: GetOrLoadProgram_def)

lemma GetOrLoadProgram_caches:
  "GetOrLoadProgram None location load i = ((p, e), i1) \<Longrightarrow> programs i1 location = Some p"
  by (auto simp: GetOrLoadProgram_def split: option.splits prod.splits)

lemma GetOrLoadProgram_keepsCached:
  "keepsCached load \<Longrightarrow> keepsCached (GetOrLoadProgram None location load)"
  unfolding keepsCached_def
  apply (intro allI impI)
  subgoal for i l p
    apply (cases "programs i location")
     apply (auto simp: GetOrLoadProgram_def split: prod.splits)
     apply (metis snd_conv)
    done
  done

lemma UpdateAccountContractCode_programs:
  "UpdateAccountContractCode u l c i = Inr (e, i') \<Longrightarrow> programs i' = programs i"
  by (auto simp: UpdateAccountContractCode_def split: option.splits prod.splits)

lemma execute_keeps:
  "\<forall>c \<in> set cs. callKeepsCached c \<Longrightarrow> execute u cs i = Inr i' \<Longrightarrow> programs i l = Some p
   \<Longrightarrow> programs i' l = Some p"
proof (induction u cs i rule: execute.induct)
  case (1 u i)
  then show ?case by simp
next
  case (2 u l' load cs i)
  have "keepsCached (GetOrLoadProgram None l' load)"
    using 2 by (simp add: GetOrLoadProgram_keepsCached)
  then have "programs (snd (GetOrLoadProgram None l' load i)) l = Some p"
    using 2(4) by (simp add: keepsCached_def)
  with 2 show ?case by simp
next
  case (3 u l' c cs i)
  then show ?case
    by (auto split: sum.splits dest: UpdateAccountContractCode_programs)
qed

lemma update_then_start_reloads:
  assumes "UpdateAccountContractCode u l c i = Inr (None, i3)"
  shows "GetOrLoadProgram None location load (onTransactionExecutionStart i3)
         = (case load (onTransactionExecutionStart i3) of
              ((q, e), i4) \<Rightarrow> ((q, e), i4\<lparr>programs := (programs i4)(location \<mapsto> q)\<rparr>))"
proof -
  have "updatedContractCode i3"
    using assms by (auto simp: UpdateAccountContractCode_def split: option.splits prod.splits)
  then have "programs (onTransactionExecutionStart i3) location = None"
    by (simp add: onTransactionExecutionStart_def invalidateUpdatedPrograms_def)
  then show ?thesis
    by (simp add: GetOrLoadProgram_def)
qed

text \<open>
  Claim C5. After \<open>GetOrLoadProgram\<close> returned a program for a location, and after any
  calls of \<open>GetOrLoadProgram\<close> (whose loaders keep the cache) and of
  \<open>UpdateAccountContractCode\<close> within the same execution, \<open>GetOrLoadProgram\<close> for the
  location returns the same program pointer with a nil error and leaves the interface as
  it is, whatever its loader is: the loader is not run. A further contract update, failed
  or not, leaves the cached program in place. Once an update succeeded, the start of the
  next transaction or script empties the cache, and \<open>GetOrLoadProgram\<close> runs its loader
  again and caches what it returns.
\<close>

theorem GetOrLoadProgram_cache_consistency:
  fixes i :: "('loc, 'prog, 'codes) testRuntimeInterface"
    and load1 load2 :: "('loc, 'prog, 'codes, 'err) load"
    and cs :: "('loc, 'prog, 'codes, 'err, 'aloc, 'code) call list"
  assumes first: "GetOrLoadProgram None location load1 i = ((p, e), i1)"
    and within: "\<forall>c \<in> set cs. callKeepsCached c"
    and exec: "execute u cs i1 = Inr i2"
  shows "GetOrLoadProgram None location load2 i2 = ((p, None), i2)
       \<and> (\<forall>l c e' i3. UpdateAccountContractCode u l c i2 = Inr (e', i3) \<longrightarrow>
             programs i3 location = Some p
             \<and> GetOrLoadProgram None location load2 i3 = ((p, None), i3))
       \<and> (\<forall>l c i3. UpdateAccountContractCode u l c i2 = Inr (None, i3) \<longrightarrow>
             GetOrLoadProgram None location load2 (onTransactionExecutionStart i3)
             = (case load2 (onTransactionExecutionStart i3) of
                  ((q, e2), i4) \<Rightarrow> ((q, e2), i4\<lparr>programs := (programs i4)(location \<mapsto> q)\<rparr>))
             \<and> onScriptExecutionStart i3 = onTransactionExecutionStart i3)"
proof -
  have c1: "programs i1 location = Some p"
    using first by (rule GetOrLoadProgram_caches)
  have c2: "programs i2 location = Some p"
    using within exec c1 by (rule execute_keeps)
  have a: "GetOrLoadProgram None location load2 i2 = ((p, None), i2)"
    using c2 by (rule GetOrLoadProgram_hit)
  have b: "programs i3 location = Some p \<and> GetOrLoadProgram None location load2 i3 = ((p, None), i3)"
    if "UpdateAccountContractCode u l c i2 = Inr (e', i3)" for l c e' i3
  proof -
    have "programs i3 = programs i2" using that by (rule UpdateAccountContractCode_programs)
    then have "programs i3 location = Some p" using c2 by simp
    then show ?thesis by (simp add: GetOrLoadProgram_hit)
  qed
  have c: "GetOrLoadProgram None location load2 (onTransactionExecutionStart i3)
             = (case load2 (onTransactionExecutionStart i3) of
                  ((q, e2), i4) \<Rightarrow> ((q, e2), i4\<lparr>programs := (programs i4)(location \<mapsto> q)\<rparr>))"
    if "UpdateAccountContractCode u l c i2 = Inr (None, i3)" for l c i3
    using that by (rule update_then_start_reloads)
  have d: "onScriptExecutionStart i3 = onTransactionExecutionStart i3" for i3 :: "('loc, 'prog, 'codes) testRuntimeInterface"
    by (simp add: onScriptExecutionStart_def onTransactionExecutionStart_def)
  show ?thesis
    using a b c d by (intro conjI allI impI) auto
qed

text \<open>
  At the example: location 1 is loaded as program 100; the execution then updates the
  contract at 1 and loads location 2, whose loader imports 1; location 1 still yields
  program 100 without running the loader, and after the next transaction start the
  loader runs and yields program 300.
\<close>

lemma keepsCached_loadConst: "keepsCached (loadConst p)"
  by (simp add: keepsCached_def loadConst_def)

lemma keepsCached_loadImporting: "keepsCached (loadImporting l p)"
  using GetOrLoadProgram_keepsCached [OF keepsCached_loadConst, where p1 = "p + 1" and location = l]
  by (simp add: keepsCached_def loadImporting_def)

theorem GetOrLoadProgram_cache_consistency_witness:
  "fst (GetOrLoadProgram None 1 (loadConst 100) emptyInterface) = (Some 100, None)
   \<and> (\<exists>i2. execute (Some storeCode) calls1 (snd (GetOrLoadProgram None 1 (loadConst 100) emptyInterface)) = Inr i2
         \<and> updatedContractCode i2
         \<and> accountCodes i2 1 = Some ''v2''
         \<and> programs i2 2 = Some (Some 200)
         \<and> GetOrLoadProgram None 1 (loadConst 300) i2 = ((Some 100, None), i2)
         \<and> fst (GetOrLoadProgram None 1 (loadConst 300) (onTransactionExecutionStart i2)) = (Some 300, None))"
proof -
  obtain i1 where f: "GetOrLoadProgram None 1 (loadConst 100) emptyInterface = ((Some 100, None), i1)"
    by (simp add: GetOrLoadProgram_def emptyInterface_def loadConst_def)
  have w: "\<forall>c \<in> set calls1. callKeepsCached c"
    by (simp add: calls1_def keepsCached_loadImporting)
  have i1: "i1 = emptyInterface\<lparr>programs := [1 \<mapsto> Some 100]\<rparr>"
    using f by (simp add: GetOrLoadProgram_def emptyInterface_def loadConst_def)
  obtain i2 where x: "execute (Some storeCode) calls1 i1 = Inr i2"
    by (simp add: calls1_def UpdateAccountContractCode_def storeCode_def)
  have u: "updatedContractCode i2" and a: "accountCodes i2 1 = Some ''v2''" and p2: "programs i2 2 = Some (Some 200)"
    using x unfolding i1
    by (auto simp: calls1_def UpdateAccountContractCode_def storeCode_def GetOrLoadProgram_def
        loadImporting_def loadConst_def emptyInterface_def)
  have r: "fst (GetOrLoadProgram None 1 (loadConst 300) (onTransactionExecutionStart i2)) = (Some 300, None)"
    using u by (simp add: onTransactionExecutionStart_def invalidateUpdatedPrograms_def
        GetOrLoadProgram_def loadConst_def)
  from GetOrLoadProgram_cache_consistency [OF f w x, of "loadConst 300"]
  have "GetOrLoadProgram None 1 (loadConst 300) i2 = ((Some 100, None), i2)" by blast
  with f x u a p2 r show ?thesis by auto
qed

end
